theory Spec2Isabelle
  imports Main "HOL-Library.Word"
begin

section \<open>The JSON value of src/Core/TundraCore/JSON/JSON.h\<close>

text \<open>
  The header declares the class \<open>JSONValue\<close>: a type tag (\<open>JSONType type\<close>) and a union
  (\<open>JSONData data\<close>) that houses exactly one live payload. The inline members of the header
  (the type tests, the typed getters and the stream reader \<open>NextChar\<close>) are translated from
  their bodies. The remaining members are only declared there, each with a comment that
  states its contract.
\<close>

subsection \<open>Data model\<close>

text \<open>
  \<open>double\<close> is the IEEE-754 binary64 bit pattern held in \<open>numberValue\<close>; the literal
  \<open>0.0\<close> is the all-zero pattern. \<open>Urho3D::String\<close> is a byte string.
  \<open>JSONArray\<close> is \<open>Urho3D::Vector<JSONValue>\<close>, a sequence. \<open>JSONObject\<close> is
  \<open>Urho3D::HashMap<Urho3D::String, JSONValue>\<close>, kept as the list of its (key, value)
  pairs in iteration order.
\<close>

type_synonym double = "64 word"

datatype JSONType =
    JSON_NULL
  | JSON_BOOL
  | JSON_NUMBER
  | JSON_STRING
  | JSON_ARRAY
  | JSON_OBJECT
  | MAX_JSON_TYPES

text \<open>
  One constructor per tag value a \<open>JSONValue\<close> can carry, with the payload that is live
  under that tag. The selectors read the payload as the casts of the header do
  (\<open>data.boolValue\<close>, \<open>*reinterpret_cast<const JSONArray*>(&data)\<close>); on a value of
  another tag a selector is unspecified, as a read of an inactive union member is.
\<close>

datatype JSONValue =
    JNull
  | JBool (boolValue: bool)
  | JNumber (numberValue: double)
  | JString (stringValue: string)
  | JArray (arrayValue: "JSONValue list")
  | JObject (objectValue: "(string \<times> JSONValue) list")

type_synonym JSONArray = "JSONValue list"
type_synonym JSONObject = "(string \<times> JSONValue) list"

text \<open>\<open>JSONType Type() const { return type; }\<close>\<close>

fun Type :: "JSONValue \<Rightarrow> JSONType" where
  "Type JNull = JSON_NULL"
| "Type (JBool b) = JSON_BOOL"
| "Type (JNumber n) = JSON_NUMBER"
| "Type (JString s) = JSON_STRING"
| "Type (JArray a) = JSON_ARRAY"
| "Type (JObject ob) = JSON_OBJECT"

definition IsNull :: "JSONValue \<Rightarrow> bool" where
  "IsNull v = (Type v = JSON_NULL)"

definition IsBool :: "JSONValue \<Rightarrow> bool" where
  "IsBool v = (Type v = JSON_BOOL)"

definition IsNumber :: "JSONValue \<Rightarrow> bool" where
  "IsNumber v = (Type v = JSON_NUMBER)"

definition IsString :: "JSONValue \<Rightarrow> bool" where
  "IsString v = (Type v = JSON_STRING)"

definition IsArray :: "JSONValue \<Rightarrow> bool" where
  "IsArray v = (Type v = JSON_ARRAY)"

definition IsObject :: "JSONValue \<Rightarrow> bool" where
  "IsObject v = (Type v = JSON_OBJECT)"

subsection \<open>The shared empty values\<close>

text \<open>
  \<open>Urho3D::String::EMPTY\<close>, \<open>JSONValue::emptyJSONArray\<close> and
  \<open>JSONValue::emptyJSONObject\<close> are default-constructed constants.
\<close>

definition String_EMPTY :: string where
  "String_EMPTY = []"

definition emptyJSONArray :: JSONArray where
  "emptyJSONArray = []"

definition emptyJSONObject :: JSONObject where
  "emptyJSONObject = []"

subsection \<open>Typed getters\<close>

text \<open>
  Each getter is a \<open>const\<close> member: it takes the value and returns the result, and there is
  no updated receiver to return.
  \<^verbatim>\<open>bool GetBool() const { return type == JSON_BOOL ? data.boolValue : false; }\<close>
  \<^verbatim>\<open>double GetNumber() const { return type == JSON_NUMBER ? data.numberValue : 0.0; }\<close>
  and likewise for strings, arrays and objects.
\<close>

definition GetBool :: "JSONValue \<Rightarrow> bool" where
  "GetBool v = (if Type v = JSON_BOOL then boolValue v else False)"

definition GetNumber :: "JSONValue \<Rightarrow> double" where
  "GetNumber v = (if Type v = JSON_NUMBER then numberValue v else 0)"

definition GetString :: "JSONValue \<Rightarrow> string" where
  "GetString v = (if Type v = JSON_STRING then stringValue v else String_EMPTY)"

definition GetArray :: "JSONValue \<Rightarrow> JSONArray" where
  "GetArray v = (if Type v = JSON_ARRAY then arrayValue v else emptyJSONArray)"

definition GetObject :: "JSONValue \<Rightarrow> JSONObject" where
  "GetObject v = (if Type v = JSON_OBJECT then objectValue v else emptyJSONObject)"

section \<open>The character stream reader\<close>

text \<open>
  \<^verbatim>\<open>
  static bool NextChar(char& dest, const char*& pos, const char*& end, bool skipWhiteSpace)
  {
      while (pos < end)
      {
          dest = *pos;
          ++pos;
          if (!skipWhiteSpace || dest > 0x20)
              return true;
      }
      return false;
  }
  \<close>
  Memory is a map from addresses to bytes, the two pointers are addresses. \<open>dest\<close> and
  \<open>pos\<close> are passed by reference, so their final values are part of the result. Every
  read \<open>*pos\<close> is logged: the last component of the result lists the addresses read, in
  order. \<open>dest\<close> is a plain \<open>char\<close>, whose signedness the language leaves to the
  platform: it is a signed 8-bit integer on the x86 and x86-64 ABIs of the desktop builds
  and unsigned by default on the ARM ABIs of the Android build. The model is the signed
  reading, and the comparison \<open>dest > 0x20\<close> is made after promotion to \<open>int\<close>: hence
  \<open>sint\<close>.
\<close>

type_synonym cchar = "8 word"

function NextChar ::
  "(nat \<Rightarrow> cchar) \<Rightarrow> cchar \<Rightarrow> nat \<Rightarrow> nat \<Rightarrow> bool \<Rightarrow> nat list \<Rightarrow> bool \<times> cchar \<times> nat \<times> nat list"
where
  "NextChar mem dest pos endp skipWhiteSpace reads =
     (if pos < endp then
        (let dest' = mem pos;
             reads' = reads @ [pos];
             pos' = pos + 1
         in if \<not> skipWhiteSpace \<or> 0x20 < sint dest' then (True, dest', pos', reads')
            else NextChar mem dest' pos' endp skipWhiteSpace reads')
      else (False, dest, pos, reads))"
  by pat_completeness auto
termination
  by (relation "measure (\<lambda>(mem, dest, pos, endp, skipWhiteSpace, reads). endp - pos)") auto

declare NextChar.simps [simp del]

section \<open>Members declared in the header and defined elsewhere\<close>

text \<open>
  Modelled from the spec: the bodies of \<open>JSONValue::Size\<close> and \<open>JSONValue::IsEmpty\<close> are in
  JSON.cpp, which is not among the sources. JSON.h declares them as
  \<^verbatim>\<open>/// Return number of values for objects or arrays, or 0 otherwise.\<close>
  \<^verbatim>\<open>size_t Size() const;\<close>
  \<^verbatim>\<open>/// Return whether an object or array is empty. Return false if not an object or array.\<close>
  \<^verbatim>\<open>bool IsEmpty() const;\<close>
  and the definitions follow these comments. The specification states the result of
  \<open>IsEmpty\<close> on a value that is no container twice, as \<open>true\<close> in section 4.2 and as
  \<open>false\<close> in section 8; the header says \<open>false\<close>.
\<close>

definition Size :: "JSONValue \<Rightarrow> nat" where
  "Size v =
     (if Type v = JSON_ARRAY then length (arrayValue v)
      else if Type v = JSON_OBJECT then length (objectValue v)
      else 0)"

definition IsEmpty :: "JSONValue \<Rightarrow> bool" where
  "IsEmpty v =
     (if Type v = JSON_ARRAY then arrayValue v = []
      else if Type v = JSON_OBJECT then objectValue v = []
      else False)"

section \<open>Properties of the typed getters\<close>

text \<open>
  Claim C2. The typed getters are total and fall back to a zero value on a tag mismatch:
  \<open>GetBool\<close> returns the boolean payload of a Bool and \<open>false\<close> otherwise, \<open>GetNumber\<close>
  the number payload of a Number and \<open>0.0\<close> otherwise, \<open>GetString\<close> the string payload of
  a String and the empty string otherwise, \<open>GetArray\<close> the array payload of an Array and
  the shared empty array otherwise, \<open>GetObject\<close> the object payload of an Object and the
  shared empty object otherwise. The getters are functions of the value alone, so the
  value is the same before and after.
\<close>

theorem typed_getters_default:
  "GetBool (JBool b) = b \<and> (\<not> IsBool v \<longrightarrow> GetBool v = False) \<and>
   GetNumber (JNumber n) = n \<and> (\<not> IsNumber v \<longrightarrow> GetNumber v = 0) \<and>
   GetString (JString s) = s \<and> (\<not> IsString v \<longrightarrow> GetString v = String_EMPTY) \<and>
   GetArray (JArray a) = a \<and> (\<not> IsArray v \<longrightarrow> GetArray v = emptyJSONArray) \<and>
   GetObject (JObject ob) = ob \<and> (\<not> IsObject v \<longrightarrow> GetObject v = emptyJSONObject)"
  by (simp add: GetBool_def GetNumber_def GetString_def GetArray_def GetObject_def
      IsBool_def IsNumber_def IsString_def IsArray_def IsObject_def)

theorem typed_getters_default_witness:
  "\<not> IsBool (JString ''text'') \<and> GetBool (JString ''text'') = False \<and>
   \<not> IsNumber JNull \<and> GetNumber JNull = 0 \<and>
   \<not> IsString (JNumber 7) \<and> GetString (JNumber 7) = String_EMPTY \<and>
   \<not> IsArray (JObject [(''k'', JNull)]) \<and> GetArray (JObject [(''k'', JNull)]) = emptyJSONArray \<and>
   \<not> IsObject (JArray [JBool True]) \<and> GetObject (JArray [JBool True]) = emptyJSONObject"
  using typed_getters_default [of _ "JString ''text''" _ _ _ _]
    typed_getters_default [of _ JNull _ _ _ _]
    typed_getters_default [of _ "JNumber 7" _ _ _ _]
    typed_getters_default [of _ "JObject [(''k'', JNull)]" _ _ _ _]
    typed_getters_default [of _ "JArray [JBool True]" _ _ _ _]
  by (simp add: IsBool_def IsNumber_def IsString_def IsArray_def IsObject_def)

section \<open>Properties of the stream reader\<close>

lemma NextChar_step:
  "pos < endp \<Longrightarrow> \<not> (\<not> skip \<or> 0x20 < sint (mem pos)) \<Longrightarrow>
   NextChar mem dest pos endp skip reads = NextChar mem (mem pos) (pos + 1) endp skip (reads @ [pos])"
  by (simp add: NextChar.simps [of mem dest pos] Let_def)

lemma NextChar_deliver:
  "pos < endp \<Longrightarrow> \<not> skip \<or> 0x20 < sint (mem pos) \<Longrightarrow>
   NextChar mem dest pos endp skip reads = (True, mem pos, pos + 1, reads @ [pos])"
  by (simp add: NextChar.simps [of mem dest pos] Let_def)

lemma NextChar_end:
  "\<not> pos < endp \<Longrightarrow> NextChar mem dest pos endp skip reads = (False, dest, pos, reads)"
  by (simp add: NextChar.simps [of mem dest pos])

lemma NextChar_cursor:
  "pos \<le> endp \<Longrightarrow> NextChar mem dest pos endp skip reads = (ok, dest', pos', reads') \<Longrightarrow>
   reads' = reads @ [pos..<pos'] \<and> pos \<le> pos' \<and> pos' \<le> endp"
proof (induction mem dest pos endp skip reads rule: NextChar.induct)
  case (1 mem dest pos endp skip reads)
  show ?case
  proof (cases "pos < endp")
    case False
    with "1.prems" show ?thesis by (simp add: NextChar_end)
  next
    case lt: True
    show ?thesis
    proof (cases "\<not> skip \<or> 0x20 < sint (mem pos)")
      case True
      with lt "1.prems" show ?thesis
        by (auto simp add: NextChar_deliver upt_rec [of pos])
    next
      case False
      with lt "1.prems" have rec: "NextChar mem (mem pos) (pos + 1) endp skip (reads @ [pos]) = (ok, dest', pos', reads')"
        by (simp add: NextChar_step)
      from lt have "pos + 1 \<le> endp" by simp
      from "1.IH" [OF lt refl refl refl False this rec] lt
      show ?thesis
        by (auto simp add: upt_rec [of pos])
    qed
  qed
qed

lemma NextChar_true:
  "NextChar mem dest pos endp skip reads = (True, dest', pos', reads') \<Longrightarrow>
   pos < pos' \<and> dest' = mem (pos' - 1) \<and> (skip \<longrightarrow> 0x20 < sint (mem (pos' - 1))) \<and>
   (\<not> skip \<longrightarrow> pos' = pos + 1) \<and>
   (\<forall>a. pos \<le> a \<and> a < pos' - 1 \<longrightarrow> sint (mem a) \<le> 0x20)"
proof (induction mem dest pos endp skip reads rule: NextChar.induct)
  case (1 mem dest pos endp skip reads)
  show ?case
  proof (cases "pos < endp")
    case False
    with "1.prems" show ?thesis by (simp add: NextChar_end)
  next
    case lt: True
    show ?thesis
    proof (cases "\<not> skip \<or> 0x20 < sint (mem pos)")
      case True
      with lt "1.prems" show ?thesis
        by (auto simp add: NextChar_deliver)
    next
      case False
      with lt "1.prems" have rec: "NextChar mem (mem pos) (pos + 1) endp skip (reads @ [pos]) = (True, dest', pos', reads')"
        by (simp add: NextChar_step)
      note ih = "1.IH" [OF lt refl refl refl False rec]
      have "sint (mem a) \<le> 0x20" if "pos \<le> a" "a < pos' - 1" for a
      proof (cases "a = pos")
        case True
        with False show ?thesis by simp
      next
        case False
        with that ih show ?thesis by simp
      qed
      with ih False show ?thesis by auto
    qed
  qed
qed

lemma NextChar_false:
  "pos \<le> endp \<Longrightarrow> NextChar mem dest pos endp skip reads = (False, dest', pos', reads') \<Longrightarrow>
   pos' = endp \<and> (pos < endp \<longrightarrow> skip \<and> dest' = mem (endp - 1)) \<and> (pos = endp \<longrightarrow> dest' = dest) \<and>
   (\<forall>a. pos \<le> a \<and> a < endp \<longrightarrow> sint (mem a) \<le> 0x20)"
proof (induction mem dest pos endp skip reads rule: NextChar.induct)
  case (1 mem dest pos endp skip reads)
  show ?case
  proof (cases "pos < endp")
    case False
    with "1.prems" show ?thesis by (simp add: NextChar_end)
  next
    case lt: True
    show ?thesis
    proof (cases "\<not> skip \<or> 0x20 < sint (mem pos)")
      case True
      with lt "1.prems" show ?thesis
        by (auto simp add: NextChar_deliver)
    next
      case False
      with lt "1.prems" have rec: "NextChar mem (mem pos) (pos + 1) endp skip (reads @ [pos]) = (False, dest', pos', reads')"
        by (simp add: NextChar_step)
      from lt have "pos + 1 \<le> endp" by simp
      note ih = "1.IH" [OF lt refl refl refl False this rec]
      have "sint (mem a) \<le> 0x20" if "pos \<le> a" "a < endp" for a
      proof (cases "a = pos")
        case True
        with False show ?thesis by simp
      next
        case False
        with that ih show ?thesis by simp
      qed
      moreover have "dest' = mem (endp - 1)"
      proof (cases "pos + 1 < endp")
        case True
        with ih show ?thesis by simp
      next
        case False
        with lt have e: "endp = pos + 1" by simp
        from ih show ?thesis unfolding e by simp
      qed
      ultimately show ?thesis using ih False lt by auto
    qed
  qed
qed

text \<open>
  Claim C10. \<open>NextChar\<close> stays inside the buffer and reports exhaustion. Started with
  \<open>pos \<le> end\<close>, it reads exactly the addresses \<open>pos, pos + 1, \<dots>, pos' - 1\<close>, where \<open>pos'\<close>
  is the cursor it leaves: every address read is below \<open>end\<close>, the cursor moves by one per
  byte read and never passes \<open>end\<close>. It returns \<open>true\<close> exactly when it read at least one
  byte and the last byte read passes the filter (with \<open>skipWhiteSpace\<close> set: its value as a
  signed \<open>char\<close> is above \<open>0x20\<close>); that byte is then the one in \<open>dest\<close>. When it returns
  \<open>false\<close> the cursor is at \<open>end\<close>.
\<close>

theorem NextChar_safe:
  assumes "pos \<le> endp"
    and "NextChar mem dest pos endp skipWhiteSpace [] = (ok, dest', pos', reads)"
  shows "reads = [pos..<pos'] \<and> (\<forall>a \<in> set reads. a < endp) \<and>
         pos' = pos + length reads \<and> pos' \<le> endp \<and>
         (ok \<longleftrightarrow> reads \<noteq> [] \<and> (skipWhiteSpace \<longrightarrow> 0x20 < sint (mem (last reads)))) \<and>
         (ok \<longrightarrow> dest' = mem (last reads)) \<and>
         (\<not> ok \<longrightarrow> pos' = endp)"
proof -
  from NextChar_cursor [OF assms] have c: "reads = [pos..<pos']" "pos \<le> pos'" "pos' \<le> endp"
    by simp_all
  have l: "last reads = pos' - 1" if "pos < pos'"
    using that c(1) by simp
  show ?thesis
  proof (cases ok)
    case True
    with assms(2) NextChar_true [of mem dest pos endp skipWhiteSpace "[]" dest' pos' reads]
    have "pos < pos'" "dest' = mem (pos' - 1)" "skipWhiteSpace \<longrightarrow> 0x20 < sint (mem (pos' - 1))"
      by simp_all
    with c l True show ?thesis by auto
  next
    case False
    with assms NextChar_false [of pos endp mem dest skipWhiteSpace "[]" dest' pos' reads]
    have f: "pos' = endp" "pos < endp \<longrightarrow> skipWhiteSpace" "\<forall>a. pos \<le> a \<and> a < endp \<longrightarrow> sint (mem a) \<le> 0x20"
      by simp_all
    have "\<not> (reads \<noteq> [] \<and> (skipWhiteSpace \<longrightarrow> 0x20 < sint (mem (last reads))))"
    proof (cases "pos < pos'")
      case True
      with f l have "sint (mem (last reads)) \<le> 0x20" "skipWhiteSpace" by auto
      then show ?thesis by simp
    next
      case False
      with c show ?thesis by simp
    qed
    with c f False show ?thesis by auto
  qed
qed

theorem NextChar_safe_witness:
  "(0::nat) \<le> 4 \<and>
   NextChar (\<lambda>a. [0x20, 0x0A, 0x7B, 0x7D] ! a) 0 0 4 True [] = (True, 0x7B, 3, [0, 1, 2]) \<and>
   [0, 1, 2] = [0..<3] \<and> (3::nat) = 0 + length [0::nat, 1, 2] \<and> (3::nat) \<le> 4 \<and>
   (1::nat) \<le> 3 \<and>
   NextChar (\<lambda>a. [0x7B, 0x20, 0x09] ! a) 0x7B 1 3 True [] = (False, 0x09, 3, [1, 2]) \<and>
   [1, 2] = [1..<3] \<and> (3::nat) = 1 + length [1::nat, 2]"
proof -
  have h1: "(0::nat) \<le> 4" by simp
  have h2: "NextChar (\<lambda>a. [0x20, 0x0A, 0x7B, 0x7D] ! a) 0 0 4 True [] = (True, 0x7B, 3, [0, 1, 2])"
    by (simp add: NextChar.simps)
  have h3: "(1::nat) \<le> 3" by simp
  have h4: "NextChar (\<lambda>a. [0x7B, 0x20, 0x09] ! a) 0x7B 1 3 True [] = (False, 0x09, 3, [1, 2])"
    by (simp add: NextChar.simps)
  from NextChar_safe [OF h1 h2] NextChar_safe [OF h3 h4] h1 h2 h3 h4
  show ?thesis by blast
qed

text \<open>
  Claim C7. The claim has a byte consumed as whitespace if and only if its value is at most
  \<open>0x20\<close>, and every byte above \<open>0x20\<close> delivered as the start of the next token. The
  reader falls short of it where plain \<open>char\<close> is signed: the comparison \<open>dest > 0x20\<close>
  then sees the bytes \<open>0x80\<close> to \<open>0xFF\<close> as negative and passes over them. On the buffer
  \<open>EF BB BF 7B\<close> (a byte order mark before an opening brace) the call reads all four
  bytes and delivers \<open>0x7B\<close>, although \<open>0xEF\<close> is 239; on the one-byte buffer \<open>FF\<close> it
  reads the byte, whose value is 255, and reports the end of the stream.
\<close>

theorem NextChar_skips_bytes_above_7F:
  "NextChar (\<lambda>a. [0xEF, 0xBB, 0xBF, 0x7B] ! a) 0 0 4 True [] = (True, 0x7B, 4, [0, 1, 2, 3]) \<and>
   0x20 < unat (0xEF :: cchar) \<and>
   NextChar (\<lambda>a. [0xFF] ! a) 0 0 1 True [] = (False, 0xFF, 1, [0]) \<and>
   0x20 < unat (0xFF :: cchar)"
  by (simp add: NextChar.simps)

section \<open>Properties of \<open>Size\<close> and \<open>IsEmpty\<close>\<close>

text \<open>
  Claim C6. On a value that is neither an array nor an object, \<open>Size\<close> returns 0 and
  \<open>IsEmpty\<close> returns \<open>false\<close>. For a Number \<open>n\<close> in particular: \<open>n.IsEmpty()\<close> is \<open>false\<close>,
  \<open>n.Size()\<close> is 0, \<open>n.GetString()\<close> is the empty string and \<open>n.GetArray().Size()\<close> is 0.
\<close>

theorem size_and_empty_of_scalars:
  "(\<not> IsArray v \<and> \<not> IsObject v \<longrightarrow> Size v = 0 \<and> \<not> IsEmpty v) \<and>
   \<not> IsEmpty (JNumber n) \<and> Size (JNumber n) = 0 \<and>
   GetString (JNumber n) = [] \<and> length (GetArray (JNumber n)) = 0"
  by (simp add: IsArray_def IsObject_def Size_def IsEmpty_def GetString_def GetArray_def
      String_EMPTY_def emptyJSONArray_def)

theorem size_and_empty_of_scalars_witness:
  "\<not> IsArray (JBool True) \<and> \<not> IsObject (JBool True) \<and>
   Size (JBool True) = 0 \<and> \<not> IsEmpty (JBool True)"
proof -
  have h: "\<not> IsArray (JBool True) \<and> \<not> IsObject (JBool True)"
    by (simp add: IsArray_def IsObject_def)
  from size_and_empty_of_scalars [of "JBool True"] h
  show ?thesis by blast
qed

end
